theory Spec2Isabelle
  imports Main "HOL-Library.Multiset"
begin

section \<open>Strings\<close>

text \<open>
  Python strings are modelled as \<open>string\<close> over ASCII: the whitespace characters are
  the ASCII ones of \<open>str.isspace\<close> (tab, line feed, vertical tab, form feed, carriage
  return, the four separators 28..31 and the space), \<open>lower\<close> and \<open>upper\<close> act on
  the letters A..Z and a..z, and a character above 127 is neither whitespace nor a letter.
\<close>

definition isspace :: "char \<Rightarrow> bool" where
  "isspace c = ((of_char c :: nat) \<in> {9, 10, 11, 12, 13, 28, 29, 30, 31, 32})"

definition strip :: "string \<Rightarrow> string" where
  "strip s = rev (dropWhile isspace (rev (dropWhile isspace s)))"

definition lower_char :: "char \<Rightarrow> char" where
  "lower_char c =
     (let n = (of_char c :: nat) in if 65 \<le> n \<and> n \<le> 90 then char_of (n + 32) else c)"

definition upper_char :: "char \<Rightarrow> char" where
  "upper_char c =
     (let n = (of_char c :: nat) in if 97 \<le> n \<and> n \<le> 122 then char_of (n - 32) else c)"

definition lower :: "string \<Rightarrow> string" where
  "lower s = map lower_char s"

definition upper :: "string \<Rightarrow> string" where
  "upper s = map upper_char s"

definition startswith :: "string \<Rightarrow> string \<Rightarrow> bool" where
  "startswith s p = (take (length p) s = p)"

definition endswith :: "string \<Rightarrow> string \<Rightarrow> bool" where
  "endswith s p = (length p \<le> length s \<and> drop (length s - length p) s = p)"

text \<open>\<open>p in s\<close>: \<open>p\<close> occurs in \<open>s\<close> as a contiguous substring.\<close>

fun contains :: "string \<Rightarrow> string \<Rightarrow> bool" where
  "contains [] p = (p = [])"
| "contains (c # cs) p = (startswith (c # cs) p \<or> contains cs p)"

text \<open>
  \<open>s.replace(old, new)\<close> for a non-empty \<open>old\<close>: the occurrences are replaced from the
  left, without overlap. The recursion is on a count of characters left to skip, so that
  it is structural.
\<close>

fun replace_from :: "nat \<Rightarrow> string \<Rightarrow> string \<Rightarrow> string \<Rightarrow> string" where
  "replace_from k old new [] = []"
| "replace_from (Suc k) old new (c # cs) = replace_from k old new cs"
| "replace_from 0 old new (c # cs) =
     (if old \<noteq> [] \<and> startswith (c # cs) old
      then new @ replace_from (length old - 1) old new cs
      else c # replace_from 0 old new cs)"

definition replace :: "string \<Rightarrow> string \<Rightarrow> string \<Rightarrow> string" where
  "replace s old new = replace_from 0 old new s"

section \<open>prepare.py: parsing a source document\<close>

text \<open>
  The state of the loop of \<open>parse_file\<close>: the metadata found so far, the content lines
  collected so far and the flag set by the start marker. A file is the list of its lines,
  as \<open>readlines\<close> returns them.
\<close>

record parse_state =
  ps_author :: string
  ps_title :: string
  ps_lines :: "(int \<times> string) list"
  start_parsing :: bool

definition metadata :: "string \<Rightarrow> parse_state \<Rightarrow> parse_state" where
  "metadata stripped_line ps =
     (if startswith stripped_line ''Title: ''
      then ps\<lparr>ps_title := strip (replace stripped_line ''Title: '' '''')\<rparr>
      else if startswith stripped_line ''Author: ''
      then ps\<lparr>ps_author := strip (replace stripped_line ''Author: '' '''')\<rparr>
      else ps)"

text \<open>
  The loop over \<open>enumerate(file_content)\<close>; \<open>i\<close> is the index of the head of the
  remaining lines. The start marker is a \<open>continue\<close>, the end marker a \<open>break\<close>.
\<close>

fun parse_loop :: "nat \<Rightarrow> string list \<Rightarrow> parse_state \<Rightarrow> parse_state" where
  "parse_loop i [] ps = ps"
| "parse_loop i (line # rest) ps =
     (let line_num = int i + 1;
          stripped_line = strip line;
          ps1 = metadata stripped_line ps;
          upper_line = upper line
      in if contains upper_line ''START OF THE PROJECT GUTENBERG EBOOK''
         then parse_loop (Suc i) rest (ps1\<lparr>start_parsing := True\<rparr>)
         else if contains upper_line ''END OF THE PROJECT GUTENBERG EBOOK''
         then ps1
         else if start_parsing ps1 \<and> stripped_line \<noteq> []
         then parse_loop (Suc i) rest (ps1\<lparr>ps_lines := ps_lines ps1 @ [(line_num, stripped_line)]\<rparr>)
         else parse_loop (Suc i) rest ps1)"

definition parse_file :: "string list \<Rightarrow> string \<times> string \<times> (int \<times> string) list" where
  "parse_file file_content =
     (let ps = parse_loop 0 file_content
                 \<lparr>ps_author = ''Unknown'', ps_title = ''Unknown'', ps_lines = [],
                  start_parsing = False\<rparr>
      in (ps_author ps, ps_title ps, ps_lines ps))"

section \<open>prepare.py: the table of records\<close>

text \<open>
  A row of the table \<open>texts\<close>, with the columns of \<open>create_table\<close>. The element type of
  the embedding (the engine's FLOAT) is a parameter. The table is the list of its rows in
  the order of insertion; its primary key is the pair of \<open>filename\<close> and \<open>line_number\<close>.
\<close>

record 'f row =
  line_number :: int
  filename :: string
  author :: string
  title :: string
  content :: string
  embedding :: "'f list"

type_synonym 'f table = "'f row list"

definition key :: "'f row \<Rightarrow> string \<times> int" where
  "key r = (filename r, line_number r)"

definition unique_keys :: "'f table \<Rightarrow> bool" where
  "unique_keys t = distinct (map key t)"

text \<open>
  \<open>CREATE TABLE IF NOT EXISTS\<close>: a database without the table (\<open>None\<close>) gets an empty
  one, an existing table is left as it is.
\<close>

definition create_table :: "'f table option \<Rightarrow> 'f table" where
  "create_table db = (case db of None \<Rightarrow> [] | Some t \<Rightarrow> t)"

text \<open>\<open>INSERT OR IGNORE\<close> of one row: a row whose key is in the table is dropped.\<close>

definition insert_or_ignore :: "'f table \<Rightarrow> 'f row \<Rightarrow> 'f table" where
  "insert_or_ignore t r = (if key r \<in> set (map key t) then t else t @ [r])"

text \<open>\<open>executemany\<close> runs the statement once for each row of the batch, in order.\<close>

definition executemany :: "'f table \<Rightarrow> 'f row list \<Rightarrow> 'f table" where
  "executemany t rows = foldl insert_or_ignore t rows"

definition count_rows :: "'f table \<Rightarrow> int" where
  "count_rows t = int (length t)"

section \<open>prepare.py: the ingestion run\<close>

datatype error = EmbedderError | IndexError | DimensionMismatch

datatype report = NoContent | InsertedSkipped int int

record 'f state =
  conn :: "'f table"
  total_files_loaded :: int
  total_lines_processed :: int
  total_lines_inserted :: int
  total_lines_skipped :: int
  printed :: "report list"

datatype 'f outcome = Done "'f state" | Crashed error "'f state"

text \<open>
  The rows built from the content lines and the embeddings. \<open>embeddings[i]\<close> is read
  for every index of \<open>texts\<close>, so fewer embeddings than texts is an IndexError;
  embeddings beyond the texts are never read.
\<close>

definition data_to_insert ::
  "string \<Rightarrow> string \<Rightarrow> string \<Rightarrow> (int \<times> string) list \<Rightarrow> 'f list list \<Rightarrow> error + 'f row list" where
  "data_to_insert fname auth ttl content_lines embeddings =
     (if length embeddings < length content_lines then Inl IndexError
      else Inr (map (\<lambda>((line_num, text), embedding_list).
                  \<lparr>line_number = line_num, filename = fname, author = auth, title = ttl,
                   content = text, embedding = embedding_list\<rparr>)
                 (zip content_lines embeddings)))"

text \<open>
  The body of the loop over the files, for the file \<open>fname\<close> with the lines
  \<open>file_content\<close>. The embedding model is the parameter \<open>encode\<close>; \<open>None\<close> is an exception
  raised by it. Nothing in the loop catches an exception, so it ends the run.
\<close>

definition process_file ::
  "(string list \<Rightarrow> 'f list list option) \<Rightarrow> 'f state \<Rightarrow> string \<Rightarrow> string list \<Rightarrow> 'f outcome" where
  "process_file encode st fname file_content =
     (let st1 = st\<lparr>total_files_loaded := total_files_loaded st + 1\<rparr>;
          (auth, ttl, content_lines) = parse_file file_content
      in if content_lines = [] then Done (st1\<lparr>printed := printed st1 @ [NoContent]\<rparr>)
         else
           let st2 = st1\<lparr>total_lines_processed :=
                            total_lines_processed st1 + int (length content_lines)\<rparr>;
               texts = map snd content_lines
           in case encode texts of
                None \<Rightarrow> Crashed EmbedderError st2
              | Some embeddings \<Rightarrow>
                  (case data_to_insert fname auth ttl content_lines embeddings of
                     Inl e \<Rightarrow> Crashed e st2
                   | Inr rows \<Rightarrow>
                       let count_before = count_rows (conn st2);
                           conn' = executemany (conn st2) rows;
                           count_after = count_rows conn';
                           inserted_count = count_after - count_before;
                           skipped_count = int (length rows) - inserted_count
                       in Done (st2\<lparr>conn := conn',
                                    total_lines_inserted := total_lines_inserted st2 + inserted_count,
                                    total_lines_skipped := total_lines_skipped st2 + skipped_count,
                                    printed := printed st2 @ [InsertedSkipped inserted_count skipped_count]\<rparr>)))"

fun process_files ::
  "(string list \<Rightarrow> 'f list list option) \<Rightarrow> 'f state \<Rightarrow> (string \<times> string list) list \<Rightarrow> 'f outcome" where
  "process_files encode st [] = Done st"
| "process_files encode st ((fname, file_content) # files) =
     (case process_file encode st fname file_content of
        Crashed e st' \<Rightarrow> Crashed e st'
      | Done st' \<Rightarrow> process_files encode st' files)"

text \<open>
  \<open>main\<close> of prepare.py. The directory \<open>texts\<close> is the list of its files with their
  lines, or \<open>None\<close> when it does not exist.
\<close>

definition prepare_main ::
  "(string list \<Rightarrow> 'f list list option) \<Rightarrow> 'f table option \<Rightarrow> (string \<times> string list) list option
     \<Rightarrow> 'f outcome" where
  "prepare_main encode db texts_dir =
     (let st = \<lparr>conn = create_table db, total_files_loaded = 0, total_lines_processed = 0,
                 total_lines_inserted = 0, total_lines_skipped = 0, printed = []\<rparr>
      in case texts_dir of
           None \<Rightarrow> Done st
         | Some listing \<Rightarrow>
             (let files = filter (\<lambda>(f, _). endswith f ''.txt'') listing
              in if files = [] then Done st else process_files encode st files))"

section \<open>find.py: the search statement\<close>

text \<open>
  Modelled from the spec: \<open>list_cosine_similarity\<close> is a built-in of the database
  engine, which is not part of the repository. Following section 4.1 of the
  specification, two vectors of different lengths are an error and are neither truncated
  nor padded. The arithmetic on the engine's floating-point numbers is the parameter
  \<open>cosine\<close>, about which nothing is assumed; the scores are of a linearly ordered type,
  as the engine orders its FLOAT values.
\<close>

definition list_cosine_similarity ::
  "('f list \<Rightarrow> 'f list \<Rightarrow> 's) \<Rightarrow> 'f list \<Rightarrow> 'f list \<Rightarrow> error + 's" where
  "list_cosine_similarity cosine a b =
     (if length a \<noteq> length b then Inl DimensionMismatch else Inr (cosine a b))"

text \<open>The similarity of every row of the table; the first error ends the statement.\<close>

fun similarities ::
  "('f list \<Rightarrow> 'f list \<Rightarrow> 's) \<Rightarrow> 'f list \<Rightarrow> 'f table \<Rightarrow> error + ('s \<times> 'f row) list" where
  "similarities cosine q [] = Inr []"
| "similarities cosine q (r # t) =
     (case list_cosine_similarity cosine (embedding r) q of
        Inl e \<Rightarrow> Inl e
      | Inr s \<Rightarrow>
          (case similarities cosine q t of
             Inl e \<Rightarrow> Inl e
           | Inr rest \<Rightarrow> Inr ((s, r) # rest)))"

text \<open>
  The columns of the SELECT: title, author, line_number, filename, content and the
  similarity.
\<close>

type_synonym 's result = "string \<times> string \<times> int \<times> string \<times> string \<times> 's"

definition select_columns :: "'s \<times> 'f row \<Rightarrow> 's result" where
  "select_columns x =
     (case x of (s, r) \<Rightarrow> (title r, author r, line_number r, filename r, content r, s))"

definition similarity :: "'s result \<Rightarrow> 's" where
  "similarity x = (case x of (_, _, _, _, _, s) \<Rightarrow> s)"


text \<open>Two sorts that meet it: one keeps rows of equal similarity in the order of
  insertion, the other reverses them.\<close>

definition ties_in_order :: "('s::linorder \<times> 'r) list \<Rightarrow> ('s \<times> 'r) list" where
  "ties_in_order xs = rev (sort_key fst (rev xs))"


text \<open>
  The statement of find.py, with \<open>LIMIT n\<close> for the count \<open>n\<close> given with \<open>-n\<close>. The
  count is a natural number here: what the engine does with a negative one is outside
  the model.
\<close>

definition search ::
  "('f list \<Rightarrow> 'f list \<Rightarrow> 's::linorder) \<Rightarrow> (('s \<times> 'f row) list \<Rightarrow> ('s \<times> 'f row) list)
     \<Rightarrow> 'f table \<Rightarrow> 'f list \<Rightarrow> nat \<Rightarrow> error + 's result list" where
  "search cosine order_by t query_embedding n =
     (case similarities cosine query_embedding t of
        Inl e \<Rightarrow> Inl e
      | Inr scored \<Rightarrow> Inr (map select_columns (take n (order_by scored))))"



section \<open>find.py: the query loop\<close>

text \<open>
  What the loop has done so far: the queries given to the embedding model, and the result
  lists printed. The connection is read-only: the table is a parameter of the loop.
\<close>

record 's query_state =
  encoded :: "string list"
  shown :: "'s result list list"

datatype 's step = Break | Continue "'s query_state" | Raise error "'s query_state"

datatype ending = Goodbye | Uncaught error

text \<open>
  The body of \<open>while True\<close> for one line read by \<open>input\<close>. The embedding model is the
  parameter \<open>encode\<close> (\<open>None\<close>: it raises); only \<open>input\<close> is inside a \<open>try\<close>, so an
  exception of the model or of the engine ends the program.
\<close>

definition iteration ::
  "(string \<Rightarrow> 'f list option) \<Rightarrow> ('f list \<Rightarrow> 'f list \<Rightarrow> 's::linorder)
     \<Rightarrow> (('s \<times> 'f row) list \<Rightarrow> ('s \<times> 'f row) list) \<Rightarrow> 'f table \<Rightarrow> nat
     \<Rightarrow> 's query_state \<Rightarrow> string \<Rightarrow> 's step" where
  "iteration encode cosine order_by t n_neighbors st query =
     (if lower query = ''exit'' \<or> lower query = ''quit'' then Break
      else if strip query = [] then Continue st
      else
        (case encode query of
           None \<Rightarrow> Raise EmbedderError st
         | Some query_embedding \<Rightarrow>
             (let st1 = st\<lparr>encoded := encoded st @ [query]\<rparr>
              in case search cosine order_by t query_embedding n_neighbors of
                   Inl e \<Rightarrow> Raise e st1
                 | Inr results \<Rightarrow> Continue (st1\<lparr>shown := shown st1 @ [results]\<rparr>))))"

text \<open>The loop over the lines typed; the end of the input is the EOFError of \<open>input\<close>.\<close>

fun query_loop ::
  "(string \<Rightarrow> 'f list option) \<Rightarrow> ('f list \<Rightarrow> 'f list \<Rightarrow> 's::linorder)
     \<Rightarrow> (('s \<times> 'f row) list \<Rightarrow> ('s \<times> 'f row) list) \<Rightarrow> 'f table \<Rightarrow> nat
     \<Rightarrow> 's query_state \<Rightarrow> string list \<Rightarrow> 's query_state \<times> ending" where
  "query_loop encode cosine order_by t n_neighbors st [] = (st, Goodbye)"
| "query_loop encode cosine order_by t n_neighbors st (query # inputs) =
     (case iteration encode cosine order_by t n_neighbors st query of
        Break \<Rightarrow> (st, Goodbye)
      | Continue st' \<Rightarrow> query_loop encode cosine order_by t n_neighbors st' inputs
      | Raise e st' \<Rightarrow> (st', Uncaught e))"

section \<open>Sample data\<close>

text \<open>
  A small document with its metadata, the two markers, two content lines and an empty line
  between them; an embedding model that always answers, and one that fails on the first
  content line of the document.
\<close>

definition sample_document :: "string list" where
  "sample_document = map (\<lambda>l. l @ ''\<newline>'')
     [''Title: T'', ''Author: A'', ''*** START OF THE PROJECT GUTENBERG EBOOK T ***'',
      ''the cat sat'', '''', ''  a dog ran  '', ''*** END OF THE PROJECT GUTENBERG EBOOK T ***'',
      ''after the end'']"

definition sample_encode :: "string list \<Rightarrow> int list list option" where
  "sample_encode texts = Some (map (\<lambda>s. [int (length s), 1]) texts)"

definition failing_encode :: "string list \<Rightarrow> int list list option" where
  "failing_encode texts = (if ''the cat sat'' \<in> set texts then None else sample_encode texts)"

definition initial_state :: "int state" where
  "initial_state = \<lparr>conn = [], total_files_loaded = 0, total_lines_processed = 0,
     total_lines_inserted = 0, total_lines_skipped = 0, printed = []\<rparr>"

definition sample_row :: "string \<Rightarrow> int \<Rightarrow> string \<Rightarrow> int list \<Rightarrow> int row" where
  "sample_row f n c e = \<lparr>line_number = n, filename = f, author = ''A'', title = ''T'',
     content = c, embedding = e\<rparr>"

definition sample_rows :: "int row list" where
  "sample_rows = [sample_row ''a.txt'' 4 ''the cat sat'' [11, 1],
                  sample_row ''a.txt'' 6 ''a dog ran'' [9, 1]]"

definition other_document :: "string list" where
  "other_document = map (\<lambda>l. l @ ''\<newline>'')
     [''Title: T'', ''Author: A'', ''*** START OF THE PROJECT GUTENBERG EBOOK T ***'',
      ''a dog ran'']"

definition other_state :: "int state" where
  "other_state = \<lparr>conn = [sample_row ''b.txt'' 4 ''a dog ran'' [9, 1]],
     total_files_loaded = 1, total_lines_processed = 1,
     total_lines_inserted = 1, total_lines_skipped = 0, printed = [InsertedSkipped 1 0]\<rparr>"


definition sample_encode_query :: "string \<Rightarrow> int list option" where
  "sample_encode_query query = Some [int (length query), 1]"

definition sample_similarity :: "int list \<Rightarrow> int list \<Rightarrow> int" where
  "sample_similarity a b = sum_list (map2 (*) a b)"

definition empty_query_state :: "int query_state" where
  "empty_query_state = \<lparr>encoded = [], shown = []\<rparr>"


text \<open>
  An embedding model whose vectors have one component, and two rows of equal similarity
  to the query \<open>[1, 0]\<close>.
\<close>

definition short_encode :: "string list \<Rightarrow> int list list option" where
  "short_encode texts = Some (map (\<lambda>s. [int (length s)]) texts)"

definition short_encode_query :: "string \<Rightarrow> int list option" where
  "short_encode_query query = Some [int (length query)]"


section \<open>Properties of the table\<close>

lemma insert_or_ignore_present: "key r \<in> set (map key t) \<Longrightarrow> insert_or_ignore t r = t"
  by (simp add: insert_or_ignore_def)

lemma insert_or_ignore_absent: "key r \<notin> set (map key t) \<Longrightarrow> insert_or_ignore t r = t @ [r]"
  by (simp add: insert_or_ignore_def)

lemma unique_keys_insert_or_ignore: "unique_keys t \<Longrightarrow> unique_keys (insert_or_ignore t r)"
  by (simp add: insert_or_ignore_def unique_keys_def)

lemma executemany_Nil: "executemany t [] = t"
  by (simp add: executemany_def)

lemma executemany_Cons: "executemany t (r # rows) = executemany (insert_or_ignore t r) rows"
  by (simp add: executemany_def)

lemma executemany_snoc: "executemany t (rows @ [r]) = insert_or_ignore (executemany t rows) r"
  by (simp add: executemany_def)

lemma unique_keys_executemany: "unique_keys t \<Longrightarrow> unique_keys (executemany t rows)"
  by (induction rows arbitrary: t) (simp_all add: executemany_Nil executemany_Cons unique_keys_insert_or_ignore)

lemma executemany_extends: "\<exists>new. executemany t rows = t @ new"
proof (induction rows arbitrary: t)
  case Nil
  show ?case by (simp add: executemany_Nil)
next
  case (Cons r rows)
  obtain new where n: "executemany (insert_or_ignore t r) rows = insert_or_ignore t r @ new"
    using Cons.IH by blast
  show ?case
  proof (cases "key r \<in> set (map key t)")
    case True
    with n show ?thesis by (simp add: executemany_Cons insert_or_ignore_def)
  next
    case False
    with n have "executemany t (r # rows) = t @ ([r] @ new)"
      by (simp add: executemany_Cons insert_or_ignore_def)
    then show ?thesis by blast
  qed
qed

lemma keys_executemany:
  "set (map key (executemany t rows)) = set (map key t) \<union> set (map key rows)"
  by (induction rows arbitrary: t) (auto simp: executemany_Nil executemany_Cons insert_or_ignore_def)

lemma find_append_cases:
  "find P (xs @ ys) = (case find P xs of None \<Rightarrow> find P ys | Some x \<Rightarrow> Some x)"
  by (induction xs) simp_all

lemma find_executemany:
  "find (\<lambda>x. key x = k) (executemany t rows) = find (\<lambda>x. key x = k) (t @ rows)"
proof (induction rows arbitrary: t)
  case Nil
  show ?case by (simp add: executemany_Nil)
next
  case (Cons r rows)
  show ?case
  proof (cases "key r \<in> set (map key t)")
    case True
    then obtain x where x: "x \<in> set t" "key x = key r" by auto
    have "find (\<lambda>x. key x = k) (t @ r # rows) = find (\<lambda>x. key x = k) (t @ rows)"
    proof (cases "k = key r")
      case True
      with x have "find (\<lambda>x. key x = k) t \<noteq> None" by (auto simp: find_None_iff)
      then show ?thesis by (auto simp: find_append_cases)
    next
      case False
      then show ?thesis by (auto simp: find_append_cases split: option.splits)
    qed
    with True Cons.IH [of t] show ?thesis
      by (simp add: executemany_Cons insert_or_ignore_def)
  next
    case False
    with Cons.IH [of "t @ [r]"] show ?thesis
      by (simp add: executemany_Cons insert_or_ignore_def)
  qed
qed

lemma length_executemany_le: "length (executemany t rows) \<le> length t + length rows"
proof (induction rows arbitrary: t)
  case Nil
  show ?case by (simp add: executemany_Nil)
next
  case (Cons r rows)
  have "length (insert_or_ignore t r) \<le> length t + 1"
    by (simp add: insert_or_ignore_def)
  with Cons.IH [of "insert_or_ignore t r"] show ?case
    by (simp add: executemany_Cons)
qed

lemma length_executemany_ge: "length t \<le> length (executemany t rows)"
  using executemany_extends [of t rows] by auto

lemma executemany_fresh:
  "distinct (map key rows) \<Longrightarrow> set (map key rows) \<inter> set (map key t) = {} \<Longrightarrow>
   executemany t rows = t @ rows"
  by (induction rows arbitrary: t) (auto simp: executemany_Nil executemany_Cons insert_or_ignore_def)

lemma executemany_known:
  "set (map key rows) \<subseteq> set (map key t) \<Longrightarrow> executemany t rows = t"
  by (induction rows arbitrary: t) (auto simp: executemany_Nil executemany_Cons insert_or_ignore_def)


lemma ps_lines_metadata: "ps_lines (metadata s ps) = ps_lines ps"
  by (simp add: metadata_def)

lemma parse_loop_distinct:
  "distinct (map fst (ps_lines ps)) \<Longrightarrow> \<forall>n\<in>set (map fst (ps_lines ps)). n \<le> int i \<Longrightarrow>
   distinct (map fst (ps_lines (parse_loop i fc ps)))"
proof (induction fc arbitrary: i ps)
  case Nil
  then show ?case by simp
next
  case (Cons line rest)
  let ?ps1 = "metadata (strip line) ps"
  have d1: "distinct (map fst (ps_lines ?ps1))"
    and b1: "\<forall>n\<in>set (map fst (ps_lines ?ps1)). n \<le> int i"
    using Cons.prems by (simp_all add: ps_lines_metadata)
  have b2: "\<forall>n\<in>set (map fst (ps_lines ?ps1)). n \<le> int (Suc i)"
    using b1 by auto
  have A: "distinct (map fst (ps_lines (parse_loop (Suc i) rest (?ps1\<lparr>start_parsing := True\<rparr>))))"
    by (rule Cons.IH) (use d1 b2 in simp_all)
  have B: "distinct (map fst (ps_lines (parse_loop (Suc i) rest ?ps1)))"
    by (rule Cons.IH) (use d1 b2 in simp_all)
  have C: "distinct (map fst (ps_lines (parse_loop (Suc i) rest
             (?ps1\<lparr>ps_lines := ps_lines ?ps1 @ [(int i + 1, strip line)]\<rparr>))))"
  proof (rule Cons.IH)
    show "distinct (map fst (ps_lines (?ps1\<lparr>ps_lines := ps_lines ?ps1 @ [(int i + 1, strip line)]\<rparr>)))"
      using d1 b1 by auto
    show "\<forall>n\<in>set (map fst (ps_lines (?ps1\<lparr>ps_lines := ps_lines ?ps1 @ [(int i + 1, strip line)]\<rparr>))). n \<le> int (Suc i)"
      using b1 by auto
  qed
  show ?case
    using A B C d1 by (simp add: Let_def)
qed

lemma parse_file_distinct:
  "parse_file fc = (auth, ttl, content_lines) \<Longrightarrow> distinct (map fst content_lines)"
  using parse_loop_distinct [of "\<lparr>ps_author = ''Unknown'', ps_title = ''Unknown'', ps_lines = [],
                  start_parsing = False\<rparr>" 0 fc]
  by (auto simp: parse_file_def Let_def)

lemma data_to_insert_keys:
  assumes "data_to_insert fname auth ttl cl embs = Inr rows"
  shows "map key rows = map (\<lambda>x. (fname, fst x)) cl"
    and "length rows = length cl"
    and "map embedding rows = take (length cl) embs"
proof -
  have len: "length cl \<le> length embs"
    and rows: "rows = map (\<lambda>((line_num, text), embedding_list).
                  \<lparr>line_number = line_num, filename = fname, author = auth, title = ttl,
                   content = text, embedding = embedding_list\<rparr>) (zip cl embs)"
    using assms by (auto simp: data_to_insert_def split: if_splits)
  have "map key rows = map (\<lambda>x. (fname, fst x)) (map fst (zip cl embs))"
    by (simp add: rows key_def case_prod_unfold)
  with len show "map key rows = map (\<lambda>x. (fname, fst x)) cl"
    by (simp add: map_fst_zip_take min_def)
  show "length rows = length cl"
    using len by (simp add: rows)
  have "map embedding rows = map snd (zip cl embs)"
    by (simp add: rows case_prod_unfold)
  with len show "map embedding rows = take (length cl) embs"
    by (simp add: map_snd_zip_take min_def)
qed

lemma parse_sample_document:
  "parse_file sample_document = (''A'', ''T'', [(4, ''the cat sat''), (6, ''a dog ran'')])"
  by code_simp

lemma process_sample_once:
  "process_file sample_encode initial_state ''a.txt'' sample_document =
     Done \<lparr>conn = sample_rows, total_files_loaded = 1, total_lines_processed = 2,
           total_lines_inserted = 2, total_lines_skipped = 0,
           printed = [InsertedSkipped 2 0]\<rparr>"
  by (simp add: process_file_def parse_sample_document sample_encode_def data_to_insert_def
      executemany_def insert_or_ignore_def key_def count_rows_def initial_state_def
      sample_rows_def sample_row_def)

lemma initial_state_simps:
  "conn initial_state = []" "printed initial_state = []"
  "total_files_loaded initial_state = 0" "total_lines_processed initial_state = 0"
  "total_lines_inserted initial_state = 0" "total_lines_skipped initial_state = 0"
  by (simp_all add: initial_state_def)

lemma parse_other_document:
  "parse_file other_document = (''A'', ''T'', [(4, ''a dog ran'')])"
  by code_simp

lemma process_file_empty:
  assumes "parse_file file_content = (auth, ttl, [])"
  shows "process_file encode st fname file_content =
     Done (st\<lparr>total_files_loaded := total_files_loaded st + 1,
               printed := printed st @ [NoContent]\<rparr>)"
  using assms by (simp add: process_file_def)

lemma process_file_Done:
  assumes "parse_file file_content = (auth, ttl, content_lines)"
    and "content_lines \<noteq> []"
    and "encode (map snd content_lines) = Some embeddings"
    and "data_to_insert fname auth ttl content_lines embeddings = Inr rows"
  shows "process_file encode st fname file_content =
     Done (st\<lparr>total_files_loaded := total_files_loaded st + 1,
       total_lines_processed := total_lines_processed st + int (length content_lines),
       conn := executemany (conn st) rows,
       total_lines_inserted := total_lines_inserted st +
         (count_rows (executemany (conn st) rows) - count_rows (conn st)),
       total_lines_skipped := total_lines_skipped st +
         (int (length rows) - (count_rows (executemany (conn st) rows) - count_rows (conn st))),
       printed := printed st @
         [InsertedSkipped (count_rows (executemany (conn st) rows) - count_rows (conn st))
           (int (length rows) - (count_rows (executemany (conn st) rows) - count_rows (conn st)))]\<rparr>)"
  using assms by (simp add: process_file_def Let_def)

lemma process_file_embedder_fails:
  assumes "parse_file file_content = (auth, ttl, content_lines)"
    and "content_lines \<noteq> []"
    and "encode (map snd content_lines) = None"
  shows "process_file encode st fname file_content =
     Crashed EmbedderError (st\<lparr>total_files_loaded := total_files_loaded st + 1,
       total_lines_processed := total_lines_processed st + int (length content_lines)\<rparr>)"
  using assms by (simp add: process_file_def Let_def)

lemma process_files_append:
  "process_files encode st (xs @ ys) =
     (case process_files encode st xs of
        Crashed e st' \<Rightarrow> Crashed e st'
      | Done st' \<Rightarrow> process_files encode st' ys)"
  by (induction xs arbitrary: st) (auto split: outcome.splits)

lemma data_to_insert_Inr:
  "length content_lines \<le> length embeddings \<Longrightarrow>
   \<exists>rows. data_to_insert fname auth ttl content_lines embeddings = Inr rows"
  by (simp add: data_to_insert_def)

lemma process_other_document:
  "process_file failing_encode initial_state ''b.txt'' other_document = Done other_state"
  by (simp add: process_file_def parse_other_document failing_encode_def sample_encode_def
      data_to_insert_def executemany_def insert_or_ignore_def key_def count_rows_def
      initial_state_def other_state_def sample_row_def)

lemma failing_encode_sample:
  "failing_encode (map snd [(4 :: int, ''the cat sat''), (6, ''a dog ran'')]) = None"
  by (simp add: failing_encode_def)


section \<open>Properties of the query loop\<close>





lemma iteration_command:
  "lower query = ''exit'' \<or> lower query = ''quit'' \<Longrightarrow>
   iteration encode cosine order_by t n st query = Break"
  by (auto simp: iteration_def)

lemma iteration_Break_iff:
  "iteration encode cosine order_by t n st query = Break \<longleftrightarrow>
   lower query = ''exit'' \<or> lower query = ''quit''"
  by (auto simp: iteration_def Let_def split: option.splits sum.splits)

lemma iteration_encoded:
  "iteration encode cosine order_by t n st query = Continue st' \<or>
   iteration encode cosine order_by t n st query = Raise e st' \<Longrightarrow>
   set (encoded st') \<subseteq> set (encoded st) \<union>
     {q. q = query \<and> lower q \<noteq> ''exit'' \<and> lower q \<noteq> ''quit'' \<and> strip q \<noteq> []}"
  by (auto simp: iteration_def Let_def split: option.splits sum.splits if_splits)

lemma query_loop_encoded:
  "set (encoded (fst (query_loop encode cosine order_by t n st inputs))) \<subseteq>
   set (encoded st) \<union>
     {q. q \<in> set inputs \<and> lower q \<noteq> ''exit'' \<and> lower q \<noteq> ''quit'' \<and> strip q \<noteq> []}"
proof (induction inputs arbitrary: st)
  case Nil
  show ?case by simp
next
  case (Cons query inputs)
  show ?case
  proof (cases "iteration encode cosine order_by t n st query")
    case Break
    then show ?thesis by simp
  next
    case (Continue st')
    have "set (encoded st') \<subseteq> set (encoded st) \<union>
      {q. q = query \<and> lower q \<noteq> ''exit'' \<and> lower q \<noteq> ''quit'' \<and> strip q \<noteq> []}"
      using Continue iteration_encoded by blast
    with Cons.IH [of st'] Continue show ?thesis by auto
  next
    case (Raise e st')
    have "set (encoded st') \<subseteq> set (encoded st) \<union>
      {q. q = query \<and> lower q \<noteq> ''exit'' \<and> lower q \<noteq> ''quit'' \<and> strip q \<noteq> []}"
      using Raise iteration_encoded by blast
    with Raise show ?thesis by auto
  qed
qed


section \<open>Properties of the search statement\<close>

lemma similarities_Inr:
  "\<forall>r\<in>set t. length (embedding r) = length q \<Longrightarrow>
   similarities cosine q t = Inr (map (\<lambda>r. (cosine (embedding r) q, r)) t)"
  by (induction t) (simp_all add: list_cosine_similarity_def)

lemma similarities_Inl:
  "\<exists>r\<in>set t. length (embedding r) \<noteq> length q \<Longrightarrow>
   similarities cosine q t = Inl DimensionMismatch"
proof (induction t)
  case Nil
  then show ?case by simp
next
  case (Cons r t)
  show ?case
  proof (cases "length (embedding r) = length q")
    case True
    with Cons.prems have "\<exists>r\<in>set t. length (embedding r) \<noteq> length q" by simp
    then have "similarities cosine q t = Inl DimensionMismatch" by (rule Cons.IH)
    with True show ?thesis by (simp add: list_cosine_similarity_def)
  next
    case False
    then show ?thesis by (simp add: list_cosine_similarity_def)
  qed
qed

lemma similarities_Inl_iff:
  "similarities cosine q t = Inl e \<longleftrightarrow>
   e = DimensionMismatch \<and> (\<exists>r\<in>set t. length (embedding r) \<noteq> length q)"
proof (cases "\<forall>r\<in>set t. length (embedding r) = length q")
  case True
  then show ?thesis by (auto simp: similarities_Inr)
next
  case False
  then have "\<exists>r\<in>set t. length (embedding r) \<noteq> length q" by simp
  then show ?thesis by (auto simp: similarities_Inl)
qed

lemma search_Inl_iff:
  "search cosine order_by t q n = Inl e \<longleftrightarrow>
   e = DimensionMismatch \<and> (\<exists>r\<in>set t. length (embedding r) \<noteq> length q)"
  using similarities_Inl_iff [of cosine q t e]
  by (cases "similarities cosine q t") (auto simp: search_def)


lemma similarity_select_columns: "similarity (select_columns x) = fst x"
  by (cases x) (simp add: similarity_def select_columns_def)

lemma map_similarity_select: "map similarity (map select_columns xs) = map fst xs"
  by (simp add: similarity_select_columns)














section \<open>The claims about ingestion\<close>

text \<open>
  C2. The pair of filename and line number identifies a record. Inserting a row whose key
  is in the table leaves the table as it is; at every point of a batch the keys of the
  table are distinct and the rows that were there before are still there, unchanged and
  in place; the batch is not aborted, so every key of the batch is in the table in the
  end; and the row found under a key is the first one written with it.
\<close>

theorem insert_batch_first_write_wins:
  "unique_keys t \<Longrightarrow>
     (\<forall>r. key r \<in> set (map key t) \<longrightarrow> insert_or_ignore t r = t) \<and>
     (\<forall>j \<le> length rows. unique_keys (executemany t (take j rows)) \<and>
         (\<exists>new. executemany t (take j rows) = t @ new)) \<and>
     set (map key rows) \<subseteq> set (map key (executemany t rows)) \<and>
     (\<forall>k. find (\<lambda>x. key x = k) (executemany t rows) = find (\<lambda>x. key x = k) (t @ rows))"
proof (intro conjI allI impI)
  fix r :: "'a row"
  assume "key r \<in> set (map key t)"
  then show "insert_or_ignore t r = t" by (rule insert_or_ignore_present)
next
  fix j
  assume "unique_keys t"
  then show "unique_keys (executemany t (take j rows))" by (rule unique_keys_executemany)
next
  fix j
  show "\<exists>new. executemany t (take j rows) = t @ new" by (rule executemany_extends)
next
  show "set (map key rows) \<subseteq> set (map key (executemany t rows))"
    unfolding keys_executemany by blast
next
  fix k
  show "find (\<lambda>x. key x = k) (executemany t rows) = find (\<lambda>x. key x = k) (t @ rows)"
    by (rule find_executemany)
qed

text \<open>The theorem at a table of one row and a batch that repeats its key.\<close>

theorem insert_batch_first_write_wins_witness:
  "unique_keys [sample_row ''a.txt'' 1 ''first'' [1, 0]] \<and>
   executemany [sample_row ''a.txt'' 1 ''first'' [1, 0]]
     [sample_row ''a.txt'' 1 ''second'' [0, 1], sample_row ''a.txt'' 2 ''third'' [1, 1]]
   = [sample_row ''a.txt'' 1 ''first'' [1, 0], sample_row ''a.txt'' 2 ''third'' [1, 1]]"
  using insert_batch_first_write_wins [of "[sample_row ''a.txt'' 1 ''first'' [1, 0]]"
      "[sample_row ''a.txt'' 1 ''second'' [0, 1], sample_row ''a.txt'' 2 ''third'' [1, 1]]"]
  by (simp add: unique_keys_def executemany_def insert_or_ignore_def key_def sample_row_def)

text \<open>
  C9. For every batch insertion of a document's records the counts printed add up to the
  number of records of the batch, and the inserted count is the increase of the number of
  rows of the table; neither count is negative, and both are added to the totals.
\<close>

theorem batch_counts_add_up:
  assumes "parse_file file_content = (auth, ttl, content_lines)"
    and "content_lines \<noteq> []"
    and "process_file encode st fname file_content = Done st'"
  shows "\<exists>inserted_count skipped_count.
           printed st' = printed st @ [InsertedSkipped inserted_count skipped_count] \<and>
           inserted_count + skipped_count = int (length content_lines) \<and>
           inserted_count = count_rows (conn st') - count_rows (conn st) \<and>
           0 \<le> inserted_count \<and> 0 \<le> skipped_count \<and>
           total_lines_inserted st' = total_lines_inserted st + inserted_count \<and>
           total_lines_skipped st' = total_lines_skipped st + skipped_count"
proof -
  obtain embs where e: "encode (map snd content_lines) = Some embs"
    using assms by (cases "encode (map snd content_lines)") (auto simp: process_file_def Let_def)
  obtain rows where r: "data_to_insert fname auth ttl content_lines embs = Inr rows"
    using assms e by (cases "data_to_insert fname auth ttl content_lines embs")
      (auto simp: process_file_def Let_def)
  have len: "length rows = length content_lines"
    using r by (rule data_to_insert_keys)
  let ?t = "conn st" and ?t' = "executemany (conn st) rows"
  have st': "st' = st\<lparr>total_files_loaded := total_files_loaded st + 1,
      total_lines_processed := total_lines_processed st + int (length content_lines),
      conn := ?t',
      total_lines_inserted := total_lines_inserted st + (count_rows ?t' - count_rows ?t),
      total_lines_skipped := total_lines_skipped st + (int (length rows) - (count_rows ?t' - count_rows ?t)),
      printed := printed st @ [InsertedSkipped (count_rows ?t' - count_rows ?t)
         (int (length rows) - (count_rows ?t' - count_rows ?t))]\<rparr>"
    using assms e r by (simp add: process_file_def Let_def)
  have "length ?t \<le> length ?t'" "length ?t' \<le> length ?t + length rows"
    by (rule length_executemany_ge, rule length_executemany_le)
  then show ?thesis
    by (simp add: st' len count_rows_def)
qed


text \<open>The theorem at the sample document, ingested into an empty table.\<close>

theorem batch_counts_add_up_witness:
  "parse_file sample_document = (''A'', ''T'', [(4, ''the cat sat''), (6, ''a dog ran'')]) \<and>
   process_file sample_encode initial_state ''a.txt'' sample_document =
     Done \<lparr>conn = sample_rows, total_files_loaded = 1, total_lines_processed = 2,
           total_lines_inserted = 2, total_lines_skipped = 0,
           printed = [InsertedSkipped 2 0]\<rparr> \<and>
   (\<exists>inserted_count skipped_count.
       [InsertedSkipped 2 0] = [InsertedSkipped inserted_count skipped_count] \<and>
       inserted_count + skipped_count = 2 \<and>
       inserted_count = count_rows sample_rows - count_rows (conn initial_state))"
  using batch_counts_add_up [OF parse_sample_document _ process_sample_once]
  by (simp add: parse_sample_document process_sample_once initial_state_simps)

text \<open>
  C1. A document with N content lines, ingested into a table that holds none of its keys,
  has its N records appended: the inserted count is N and the skipped count 0. Ingested
  again, it leaves the table as it is: the inserted count is 0 and the skipped count N.
  The counts are the difference of the row counts before and after the batch. A document
  without content lines adds nothing to the table or to the totals, and the message
  printed for it is that no content was found. The embedding model is assumed to answer
  with an embedding for each line.
\<close>

theorem reingest_counts:
  assumes p: "parse_file file_content = (auth, ttl, content_lines)"
    and fresh: "\<forall>r\<in>set (conn st). \<forall>l\<in>set content_lines. key r \<noteq> (fname, fst l)"
    and e1: "encode (map snd content_lines) = Some embeddings"
      "length content_lines \<le> length embeddings"
    and e2: "encode2 (map snd content_lines) = Some embeddings2"
      "length content_lines \<le> length embeddings2"
  shows "\<exists>st1 st2 rows.
     process_file encode st fname file_content = Done st1 \<and>
     process_file encode2 st1 fname file_content = Done st2 \<and>
     data_to_insert fname auth ttl content_lines embeddings = Inr rows \<and>
     conn st1 = conn st @ rows \<and> length rows = length content_lines \<and>
     total_lines_inserted st1 = total_lines_inserted st + int (length content_lines) \<and>
     total_lines_skipped st1 = total_lines_skipped st \<and>
     printed st1 = printed st @
       [if content_lines = [] then NoContent
        else InsertedSkipped (int (length content_lines)) 0] \<and>
     conn st2 = conn st1 \<and>
     total_lines_inserted st2 = total_lines_inserted st1 \<and>
     total_lines_skipped st2 = total_lines_skipped st1 + int (length content_lines) \<and>
     printed st2 = printed st1 @
       [if content_lines = [] then NoContent
        else InsertedSkipped 0 (int (length content_lines))]"
proof (cases "content_lines = []")
  case True
  have r: "data_to_insert fname auth ttl content_lines embeddings = Inr []"
    using True by (simp add: data_to_insert_def)
  show ?thesis
    using True p r by (simp add: process_file_empty)
next
  case False
  obtain rows where r: "data_to_insert fname auth ttl content_lines embeddings = Inr rows"
    using data_to_insert_Inr [OF e1(2)] by blast
  obtain rows2 where r2: "data_to_insert fname auth ttl content_lines embeddings2 = Inr rows2"
    using data_to_insert_Inr [OF e2(2)] by blast
  have k: "map key rows = map (\<lambda>x. (fname, fst x)) content_lines"
    and len: "length rows = length content_lines"
    using r by (rule data_to_insert_keys)+
  have k2: "map key rows2 = map (\<lambda>x. (fname, fst x)) content_lines"
    and len2: "length rows2 = length content_lines"
    using r2 by (rule data_to_insert_keys)+
  have "distinct (map fst content_lines)"
    using p by (rule parse_file_distinct)
  then have "distinct (map (\<lambda>x. (fname, fst x)) content_lines)"
    by (simp add: distinct_map inj_on_def)
  then have d: "distinct (map key rows)"
    by (simp add: k)
  have disj: "set (map key rows) \<inter> set (map key (conn st)) = {}"
    unfolding k using fresh by fastforce
  have first: "executemany (conn st) rows = conn st @ rows"
    using d disj by (rule executemany_fresh)
  have "set (map key rows2) \<subseteq> set (map key (conn st @ rows))"
    unfolding k2 by (simp add: k)
  then have second: "executemany (conn st @ rows) rows2 = conn st @ rows"
    by (rule executemany_known)
  define st1 where "st1 = st\<lparr>total_files_loaded := total_files_loaded st + 1,
       total_lines_processed := total_lines_processed st + int (length content_lines),
       conn := conn st @ rows,
       total_lines_inserted := total_lines_inserted st + int (length content_lines),
       total_lines_skipped := total_lines_skipped st,
       printed := printed st @ [InsertedSkipped (int (length content_lines)) 0]\<rparr>"
  have f1: "conn st1 = conn st @ rows"
    "total_lines_inserted st1 = total_lines_inserted st + int (length content_lines)"
    "total_lines_skipped st1 = total_lines_skipped st"
    "printed st1 = printed st @ [InsertedSkipped (int (length content_lines)) 0]"
    by (simp_all add: st1_def)
  have one: "process_file encode st fname file_content = Done st1"
    by (simp add: st1_def process_file_Done [where encode = encode, OF p False e1(1) r]
        first len count_rows_def)
  define st2 where "st2 = st1\<lparr>total_files_loaded := total_files_loaded st1 + 1,
       total_lines_processed := total_lines_processed st1 + int (length content_lines),
       total_lines_skipped := total_lines_skipped st1 + int (length content_lines),
       printed := printed st1 @ [InsertedSkipped 0 (int (length content_lines))]\<rparr>"
  have f2: "conn st2 = conn st1" "total_lines_inserted st2 = total_lines_inserted st1"
    "total_lines_skipped st2 = total_lines_skipped st1 + int (length content_lines)"
    "printed st2 = printed st1 @ [InsertedSkipped 0 (int (length content_lines))]"
    by (simp_all add: st2_def)
  have two: "process_file encode2 st1 fname file_content = Done st2"
    by (simp add: st2_def process_file_Done [where encode = encode2, OF p False e2(1) r2]
        f1(1) second len2 count_rows_def)
  show ?thesis
    using False r len one two f1 f2 by simp
qed

text \<open>The theorem at the sample document and the empty table.\<close>

theorem reingest_counts_witness:
  "parse_file sample_document = (''A'', ''T'', [(4, ''the cat sat''), (6, ''a dog ran'')]) \<and>
   conn initial_state = [] \<and>
   sample_encode (map snd [(4 :: int, ''the cat sat''), (6, ''a dog ran'')]) = Some [[11, 1], [9, 1]] \<and>
   (\<exists>st1 st2.
      process_file sample_encode initial_state ''a.txt'' sample_document = Done st1 \<and>
      process_file sample_encode st1 ''a.txt'' sample_document = Done st2 \<and>
      conn st1 = sample_rows \<and> conn st2 = sample_rows \<and>
      printed st2 = [InsertedSkipped 2 0, InsertedSkipped 0 2])"
proof -
  have e: "sample_encode (map snd [(4 :: int, ''the cat sat''), (6, ''a dog ran'')]) = Some [[11, 1], [9, 1]]"
    by (simp add: sample_encode_def)
  have r: "data_to_insert ''a.txt'' ''A'' ''T'' [(4, ''the cat sat''), (6, ''a dog ran'')] [[11, 1], [9, 1]]
      = Inr sample_rows"
    by (simp add: data_to_insert_def sample_rows_def sample_row_def)
  show ?thesis
    using reingest_counts [where encode = sample_encode and ?encode2.0 = sample_encode
        and st = initial_state and fname = "''a.txt''", OF parse_sample_document _ e _ e]
    by (auto simp: parse_sample_document sample_encode_def r initial_state_simps)
qed

text \<open>
  C7, as the program has it. When the embedding model fails on the lines of a document,
  nothing of that document is written and nothing is printed for it; the rows of the
  documents before it stay in the table; and the run ends there with the error, whatever
  documents come later: they are not read.
\<close>

theorem embedder_failure_ends_run:
  assumes "process_files encode st earlier = Done st_mid"
    and "parse_file file_content = (auth, ttl, content_lines)"
    and "content_lines \<noteq> []"
    and "encode (map snd content_lines) = None"
  shows "\<exists>st'. process_file encode st_mid fname file_content = Crashed EmbedderError st' \<and>
           conn st' = conn st_mid \<and> printed st' = printed st_mid \<and>
           process_files encode st (earlier @ (fname, file_content) # later)
             = Crashed EmbedderError st'"
  using assms
  by (simp add: process_files_append process_file_embedder_fails)

text \<open>The theorem at a run of three files, the second of which makes the model fail.\<close>

theorem embedder_failure_ends_run_witness:
  "process_files failing_encode initial_state [(''b.txt'', other_document)] = Done other_state \<and>
   failing_encode (map snd [(4 :: int, ''the cat sat''), (6, ''a dog ran'')]) = None \<and>
   (\<exists>st'. process_files failing_encode initial_state
            [(''b.txt'', other_document), (''a.txt'', sample_document), (''c.txt'', other_document)]
          = Crashed EmbedderError st' \<and> conn st' = conn other_state)"
proof -
  have b: "process_files failing_encode initial_state [(''b.txt'', other_document)] = Done other_state"
    by (simp add: process_other_document)
  show ?thesis
    using embedder_failure_ends_run [where encode = failing_encode and fname = "''a.txt''"
        and later = "[(''c.txt'', other_document)]", OF b parse_sample_document _ failing_encode_sample]
    by (auto simp: process_other_document failing_encode_def)
qed

text \<open>
  C7 as stated fails: a run over two files, where the model fails on the first, ends with
  the error and an empty table, although the second file alone is ingested without error.
\<close>

theorem one_failing_file_ends_run_counterexample:
  "prepare_main failing_encode None
     (Some [(''a.txt'', sample_document), (''b.txt'', other_document)])
   = Crashed EmbedderError
       \<lparr>conn = [], total_files_loaded = 1, total_lines_processed = 2,
        total_lines_inserted = 0, total_lines_skipped = 0, printed = []\<rparr> \<and>
   prepare_main failing_encode None (Some [(''b.txt'', other_document)]) = Done other_state"
proof -
  have a: "process_file failing_encode initial_state ''a.txt'' sample_document =
    Crashed EmbedderError
       \<lparr>conn = [], total_files_loaded = 1, total_lines_processed = 2,
        total_lines_inserted = 0, total_lines_skipped = 0, printed = []\<rparr>"
    by (simp add: process_file_embedder_fails [where encode = failing_encode,
          OF parse_sample_document _ failing_encode_sample]
        initial_state_def)
  have i: "\<lparr>conn = create_table None, total_files_loaded = 0, total_lines_processed = 0,
                 total_lines_inserted = 0, total_lines_skipped = 0, printed = []\<rparr> = initial_state"
    by (simp add: initial_state_def create_table_def)
  show ?thesis
    by (simp add: prepare_main_def i endswith_def a process_other_document)
qed


section \<open>The claims about the query loop\<close>



text \<open>
  C10. An iteration ends the loop exactly when the line as typed, lowercased and not
  stripped, is \<open>exit\<close> or \<open>quit\<close>. Such a line ends the loop at once, with the state as
  it was, and no run ever gives it to the embedding model: \<open>exit\<close> and \<open>quit\<close> cannot be
  used as queries.
\<close>

theorem exit_and_quit_end_the_loop:
  "(iteration encode cosine order_by t n st query = Break \<longleftrightarrow>
      lower query = ''exit'' \<or> lower query = ''quit'') \<and>
   (lower query = ''exit'' \<or> lower query = ''quit'' \<longrightarrow>
      query_loop encode cosine order_by t n st (query # inputs) = (st, Goodbye) \<and>
      (query \<notin> set (encoded st) \<longrightarrow>
         query \<notin> set (encoded (fst (query_loop encode cosine order_by t n st others)))))"
proof -
  have "lower query = ''exit'' \<or> lower query = ''quit'' \<Longrightarrow>
    query \<notin> {q. q \<in> set others \<and> lower q \<noteq> ''exit'' \<and> lower q \<noteq> ''quit'' \<and> strip q \<noteq> []}"
    by auto
  with query_loop_encoded [of encode cosine order_by t n st others] show ?thesis
    by (auto simp: iteration_Break_iff iteration_command)
qed

text \<open>
  The theorem at \<open>QuIt\<close>, which ends the loop, and at \<open>exit\<close> after a space, which
  does not.
\<close>

theorem exit_and_quit_end_the_loop_witness:
  "lower ''QuIt'' = ''quit'' \<and>
   query_loop sample_encode_query sample_similarity ties_in_order sample_rows 1
     empty_query_state [''QuIt'', ''later''] = (empty_query_state, Goodbye) \<and>
   lower '' exit'' \<noteq> ''exit'' \<and> lower '' exit'' \<noteq> ''quit'' \<and>
   iteration sample_encode_query sample_similarity ties_in_order sample_rows 1
     empty_query_state '' exit'' \<noteq> Break"
proof -
  have l1: "lower ''QuIt'' = ''quit''"
    by code_simp
  have l2: "lower '' exit'' = '' exit''"
    by code_simp
  note l = l1 l2
  show ?thesis
    using exit_and_quit_end_the_loop [of sample_encode_query sample_similarity ties_in_order
        sample_rows 1 empty_query_state "''QuIt''" "[''later'']"]
      exit_and_quit_end_the_loop [of sample_encode_query sample_similarity ties_in_order
        sample_rows 1 empty_query_state "'' exit''" "[]"]
    by (simp add: l)
qed


section \<open>The claims about the search\<close>



text \<open>
  C5, as the program has it. The search fails with the dimension error exactly when some
  stored embedding has another length than the query vector; the query loop does not
  catch it, so the query that was embedded ends the program with that error. Ingestion
  compares no lengths: the rows built for a document carry the embeddings as the model
  returned them, and a row with a new key is appended as it is.
\<close>

theorem dimension_mismatch_surfaces:
  "(search cosine order_by t q k = Inl DimensionMismatch \<longleftrightarrow>
      (\<exists>r\<in>set t. length (embedding r) \<noteq> length q)) \<and>
   ((\<exists>r\<in>set t. length (embedding r) \<noteq> length q) \<and>
      lower query \<noteq> ''exit'' \<and> lower query \<noteq> ''quit'' \<and> strip query \<noteq> [] \<and>
      encode query = Some q \<longrightarrow>
      query_loop encode cosine order_by t k st (query # inputs) =
        (st\<lparr>encoded := encoded st @ [query]\<rparr>, Uncaught DimensionMismatch)) \<and>
   (length content_lines \<le> length embeddings \<longrightarrow>
      (\<exists>rows. data_to_insert fname auth ttl content_lines embeddings = Inr rows \<and>
         map embedding rows = take (length content_lines) embeddings)) \<and>
   (key r \<notin> set (map key t') \<longrightarrow> insert_or_ignore t' r = t' @ [r])"
proof (intro conjI impI)
  show "search cosine order_by t q k = Inl DimensionMismatch \<longleftrightarrow>
      (\<exists>r\<in>set t. length (embedding r) \<noteq> length q)"
    by (simp add: search_Inl_iff)
next
  assume a: "(\<exists>r\<in>set t. length (embedding r) \<noteq> length q) \<and>
      lower query \<noteq> ''exit'' \<and> lower query \<noteq> ''quit'' \<and> strip query \<noteq> [] \<and>
      encode query = Some q"
  then have "search cosine order_by t q k = Inl DimensionMismatch"
    by (simp add: search_Inl_iff)
  with a show "query_loop encode cosine order_by t k st (query # inputs) =
        (st\<lparr>encoded := encoded st @ [query]\<rparr>, Uncaught DimensionMismatch)"
    by (simp add: iteration_def)
next
  assume l: "length content_lines \<le> length embeddings"
  then obtain rows where r: "data_to_insert fname auth ttl content_lines embeddings = Inr rows"
    using data_to_insert_Inr by blast
  then have "map embedding rows = take (length content_lines) embeddings"
    by (rule data_to_insert_keys)
  with r show "\<exists>rows. data_to_insert fname auth ttl content_lines embeddings = Inr rows \<and>
         map embedding rows = take (length content_lines) embeddings"
    by blast
next
  assume "key r \<notin> set (map key t')"
  then show "insert_or_ignore t' r = t' @ [r]"
    by (rule insert_or_ignore_absent)
qed

text \<open>
  The theorem at the two sample rows, whose embeddings have two components, and a query
  vector of one component.
\<close>

theorem dimension_mismatch_surfaces_witness:
  "(\<exists>r\<in>set sample_rows. length (embedding r) \<noteq> length [1 :: int]) \<and>
   short_encode_query ''x'' = Some [1] \<and>
   search sample_similarity ties_in_order sample_rows [1] 1 = Inl DimensionMismatch \<and>
   query_loop short_encode_query sample_similarity ties_in_order sample_rows 1
     empty_query_state [''x'', ''later''] =
     (empty_query_state\<lparr>encoded := encoded empty_query_state @ [''x'']\<rparr>,
      Uncaught DimensionMismatch)"
proof -
  have m: "\<exists>r\<in>set sample_rows. length (embedding r) \<noteq> length [1 :: int]"
    by (simp add: sample_rows_def sample_row_def)
  have e: "short_encode_query ''x'' = Some [1]"
    by (simp add: short_encode_query_def)
  have l: "lower ''x'' = ''x''" by code_simp
  have s: "strip ''x'' = ''x''" by code_simp
  note surfaces = dimension_mismatch_surfaces [of sample_similarity ties_in_order sample_rows
      "[1]" 1 "''x''" short_encode_query empty_query_state "[''later'']"]
  have a: "search sample_similarity ties_in_order sample_rows [1] 1 = Inl DimensionMismatch"
    using surfaces [THEN conjunct1] m by blast
  have "lower ''x'' \<noteq> ''exit''" "lower ''x'' \<noteq> ''quit''" "strip ''x'' \<noteq> []"
    by (simp_all add: l s)
  with m e have b: "query_loop short_encode_query sample_similarity ties_in_order sample_rows 1
     empty_query_state [''x'', ''later''] =
     (empty_query_state\<lparr>encoded := encoded empty_query_state @ [''x'']\<rparr>,
      Uncaught DimensionMismatch)"
    using surfaces [THEN conjunct2, THEN conjunct1] by blast
  from m e a b show ?thesis
    by (intro conjI)
qed

text \<open>
  C5 as stated fails for ingestion: into a table whose embedding has two components, the
  sample document is ingested with embeddings of one component; both rows are written.
\<close>

theorem mismatched_vector_is_written_counterexample:
  "process_file short_encode other_state ''a.txt'' sample_document =
     Done \<lparr>conn = [sample_row ''b.txt'' 4 ''a dog ran'' [9, 1],
                   sample_row ''a.txt'' 4 ''the cat sat'' [11],
                   sample_row ''a.txt'' 6 ''a dog ran'' [9]],
           total_files_loaded = 2, total_lines_processed = 3,
           total_lines_inserted = 3, total_lines_skipped = 0,
           printed = [InsertedSkipped 1 0, InsertedSkipped 2 0]\<rparr>"
  by (simp add: process_file_def parse_sample_document short_encode_def data_to_insert_def
      executemany_def insert_or_ignore_def key_def count_rows_def other_state_def sample_row_def)





end
